theory Spec2Isabelle
  imports
    Main
    "HOL-Library.Char_ord"
    "HOL-Library.List_Lexorder"
    "HOL-Library.Product_Lexorder"
    "HOL-Library.AList"
    "HOL-Library.Multiset"
    "HOL-Library.Code_Target_Nat"
begin

section \<open>Python strings\<close>



text \<open>
  \<^verbatim>\<open>str.isspace\<close> and the class \<^verbatim>\<open>\s\<close> of \<^verbatim>\<open>re\<close> on \<^verbatim>\<open>str\<close> patterns: the
  white space of Unicode, of which these are the code points below 256.
\<close>

definition isspace :: "char \<Rightarrow> bool" where
  "isspace c =
     (let n = (of_char c :: nat)
      in (9 \<le> n \<and> n \<le> 13) \<or> (28 \<le> n \<and> n \<le> 32) \<or> n = 133 \<or> n = 160)"

text \<open>
  \<^verbatim>\<open>str.lower\<close> and \<^verbatim>\<open>str.upper\<close>, character by character. Below 256
  \<^verbatim>\<open>lower\<close> moves A-Z and the accented capitals 192-222 (but the sign 215) up by 32.
  \<^verbatim>\<open>upper\<close> moves a-z and 224-254 (but the sign 247) down by 32; the three
  characters 181, 223 and 255, whose upper case lies outside this character set, are
  left as they are.
\<close>

definition chr_lower :: "char \<Rightarrow> char" where
  "chr_lower c =
     (let n = (of_char c :: nat)
      in if (65 \<le> n \<and> n \<le> 90) \<or> (192 \<le> n \<and> n \<le> 222 \<and> n \<noteq> 215)
         then char_of (n + 32) else c)"

definition chr_upper :: "char \<Rightarrow> char" where
  "chr_upper c =
     (let n = (of_char c :: nat)
      in if (97 \<le> n \<and> n \<le> 122) \<or> (224 \<le> n \<and> n \<le> 254 \<and> n \<noteq> 247)
         then char_of (n - 32) else c)"

definition str_lower :: "string \<Rightarrow> string" where
  "str_lower s = map chr_lower s"

definition str_upper :: "string \<Rightarrow> string" where
  "str_upper s = map chr_upper s"

text \<open>\<^verbatim>\<open>s.strip()\<close>: white space removed at both ends.\<close>

definition str_strip :: "string \<Rightarrow> string" where
  "str_strip s = rev (dropWhile isspace (rev (dropWhile isspace s)))"

text \<open>\<^verbatim>\<open>s.startswith(p)\<close> and the substring test \<^verbatim>\<open>p in s\<close>.\<close>

fun startswith :: "'a list \<Rightarrow> 'a list \<Rightarrow> bool" where
  "startswith s [] = True"
| "startswith [] (p # ps) = False"
| "startswith (c # cs) (p # ps) = (c = p \<and> startswith cs ps)"

fun str_in :: "'a list \<Rightarrow> 'a list \<Rightarrow> bool" where
  "str_in p [] = (p = [])"
| "str_in p (c # cs) = (startswith (c # cs) p \<or> str_in p cs)"


primrec rfind_from :: "char \<Rightarrow> string \<Rightarrow> int \<Rightarrow> int \<Rightarrow> int" where
  "rfind_from c [] i best = best"
| "rfind_from c (x # xs) i best = rfind_from c xs (i + 1) (if x = c then i else best)"

definition rfind :: "char \<Rightarrow> string \<Rightarrow> int" where
  "rfind c s = rfind_from c s 0 (- 1)"




section \<open>Regular expressions\<close>

text \<open>
  The patterns of the sources are sequences of literal characters, character classes and
  starred or plussed classes. \<open>rmatch\<close> is the backtracking matcher of \<^verbatim>\<open>re\<close> on such a
  sequence, anchored at the start of the text: it returns the text left after the match
  that \<^verbatim>\<open>re\<close> finds first (a greedy star tries the longest run first, a lazy star
  \<^verbatim>\<open>*?\<close> the shortest), or \<open>None\<close>.
\<close>

datatype item =
    Lit char
  | Cls "char \<Rightarrow> bool"
  | StarG "char \<Rightarrow> bool"
  | StarL "char \<Rightarrow> bool"
  | PlusG "char \<Rightarrow> bool"

fun rmatch :: "item list \<Rightarrow> string \<Rightarrow> string option" where
  "rmatch [] s = Some s"
| "rmatch (Lit c # r) [] = None"
| "rmatch (Lit c # r) (x # xs) = (if x = c then rmatch r xs else None)"
| "rmatch (Cls P # r) [] = None"
| "rmatch (Cls P # r) (x # xs) = (if P x then rmatch r xs else None)"
| "rmatch (StarG P # r) [] = rmatch r []"
| "rmatch (StarG P # r) (x # xs) =
     (if P x
      then (case rmatch (StarG P # r) xs of Some t \<Rightarrow> Some t | None \<Rightarrow> rmatch r (x # xs))
      else rmatch r (x # xs))"
| "rmatch (StarL P # r) [] = rmatch r []"
| "rmatch (StarL P # r) (x # xs) =
     (case rmatch r (x # xs) of
        Some t \<Rightarrow> Some t
      | None \<Rightarrow> if P x then rmatch (StarL P # r) xs else None)"
| "rmatch (PlusG P # r) [] = None"
| "rmatch (PlusG P # r) (x # xs) = (if P x then rmatch (StarG P # r) xs else None)"



text \<open>The text a match consumed, given the text it started on and the text it left.\<close>

definition matched :: "string \<Rightarrow> string \<Rightarrow> string" where
  "matched s rest = take (length s - length rest) s"



function re_sub :: "item list \<Rightarrow> (string \<Rightarrow> string) \<Rightarrow> string \<Rightarrow> string" where
  "re_sub p f [] = []"
| "re_sub p f (c # cs) =
     (case rmatch p (c # cs) of
        None \<Rightarrow> c # re_sub p f cs
      | Some r \<Rightarrow>
          if length r \<le> length cs then f (matched (c # cs) r) @ re_sub p f r
          else c # re_sub p f cs)"
  by pat_completeness auto
termination
  by (relation "measure (\<lambda>(p, f, s). length s)") auto

section \<open>JSON values and \<^verbatim>\<open>json.loads\<close>\<close>


text \<open>The exceptions of Python that the modelled code can meet.\<close>

datatype exn = JSONDecodeError | TypeError | AttributeError | KeyError | IndexError


subsection \<open>Tokens\<close>


definition is_digit :: "char \<Rightarrow> bool" where
  "is_digit c = (48 \<le> (of_char c :: nat) \<and> (of_char c :: nat) \<le> 57)"
























subsection \<open>The grammar\<close>










section \<open>Malformed-response recovery: \<^verbatim>\<open>parse_json_robustly\<close> (fill_dtc_gaps.py)\<close>


























section \<open>The table of diagnostic codes (fill_dtc_gaps.py)\<close>

text \<open>
  A row of the pandas frame of diagnostic codes, with the eleven columns of
  \<^verbatim>\<open>dtc_codes.csv\<close>. The cells are strings; a missing \<^verbatim>\<open>powertrain_type\<close> (NaN,
  which the cleanup tests for) is \<open>None\<close>. A frame is the list of its rows in index
  order, and the persisted dataset is the list of rows written to the file.
\<close>

record dtc_row =
  code :: string
  make_id :: string
  description :: string
  detailed_description :: string
  system :: string
  severity :: string
  common_causes :: string
  symptoms :: string
  applicable_models :: string
  applicable_years :: string
  powertrain_type :: "string option"

type_synonym dataframe = "dtc_row list"

text \<open>The counters of the global \<^verbatim>\<open>UsageStats\<close> that the modelled functions change.\<close>

record usage_stats =
  codes_added :: nat
  codes_updated :: nat
  codes_by_manufacturer :: "string \<Rightarrow> nat"

definition add_codes :: "string \<Rightarrow> nat \<Rightarrow> usage_stats \<Rightarrow> usage_stats" where
  "add_codes manufacturer n st =
     st\<lparr>codes_added := codes_added st + n,
        codes_by_manufacturer :=
          (codes_by_manufacturer st)(manufacturer := codes_by_manufacturer st manufacturer + n)\<rparr>"

subsection \<open>\<^verbatim>\<open>save_dtc_codes\<close>\<close>

text \<open>
  The exact pair \<^verbatim>\<open>(code, make_id)\<close> that \<^verbatim>\<open>drop_duplicates\<close> compares, and the pair
  with the code in upper and the owner in lower case that the scraped import looks up.
\<close>

definition exact_key :: "dtc_row \<Rightarrow> string \<times> string" where
  "exact_key r = (code r, make_id r)"

definition identity_key :: "dtc_row \<Rightarrow> string \<times> string" where
  "identity_key r = (str_upper (code r), str_lower (make_id r))"

text \<open>\<^verbatim>\<open>df.sort_values(['make_id', 'code'])\<close>: a stable sort on the pair of columns.\<close>

definition sort_values :: "dataframe \<Rightarrow> dataframe" where
  "sort_values df = sort_key (\<lambda>r. (make_id r, code r)) df"

text \<open>\<^verbatim>\<open>df.drop_duplicates(subset=['code', 'make_id'], keep='last')\<close>: a row stays when no
  later row has the same pair.\<close>

fun drop_duplicates_last :: "dataframe \<Rightarrow> dataframe" where
  "drop_duplicates_last [] = []"
| "drop_duplicates_last (r # rs) =
     (if exact_key r \<in> set (map exact_key rs) then drop_duplicates_last rs
      else r # drop_duplicates_last rs)"

text \<open>The rows \<^verbatim>\<open>save_dtc_codes\<close> writes to \<^verbatim>\<open>output/dtc_codes.csv\<close> (and, with
  \<^verbatim>\<open>also_to_assets\<close>, the same rows to the assets file).\<close>

definition save_dtc_codes :: "dataframe \<Rightarrow> dataframe" where
  "save_dtc_codes df = drop_duplicates_last (sort_values df)"

subsection \<open>\<^verbatim>\<open>quick_import_codes\<close> and its detectors\<close>








subsection \<open>\<^verbatim>\<open>import_all_generic_codes\<close>\<close>




subsection \<open>\<^verbatim>\<open>cleanup_powertrain_data\<close>\<close>

text \<open>\<^verbatim>\<open>str.match(r'^[PBCU][0-9]')\<close>: the test of the first two characters.\<close>

definition valid_prefix :: "string \<Rightarrow> bool" where
  "valid_prefix c =
     (case c of
        a # b # rest \<Rightarrow> a \<in> set ''PBCU'' \<and> is_digit b
      | _ \<Rightarrow> False)"

definition VALID_TYPES :: "string list" where
  "VALID_TYPES = [''Petrol'', ''Diesel'', ''Petrol Hybrid'', ''Diesel Hybrid'', ''Plug-in Hybrid'',
                  ''Electric'', ''All'']"

definition type_mapping :: "(string \<times> string) list" where
  "type_mapping =
     [(''petrol'', ''Petrol''), (''diesel'', ''Diesel''), (''electric'', ''Electric''),
      (''hybrid'', ''Petrol Hybrid''), (''petrol hybrid'', ''Petrol Hybrid''),
      (''diesel hybrid'', ''Diesel Hybrid''), (''plug-in hybrid'', ''Plug-in Hybrid''),
      (''plugin hybrid'', ''Plug-in Hybrid''), (''phev'', ''Plug-in Hybrid''),
      (''bev'', ''Electric''), (''ev'', ''Electric''), (''hev'', ''Petrol Hybrid''),
      (''all'', ''All''), (''automatic'', ''All'')]"

definition pat_gasoline :: "item list" where
  \<comment> \<open>\<^verbatim>\<open>(?i)gasoline\<close>\<close>
  "pat_gasoline = map (\<lambda>p. Cls (\<lambda>c. chr_lower c = p)) ''gasoline''"

text \<open>The inner function \<^verbatim>\<open>normalize_powertrain\<close>. Its counters in \<^verbatim>\<open>changes\<close> are
  only printed and are left out.\<close>

definition normalize_powertrain :: "string option \<Rightarrow> string" where
  "normalize_powertrain v =
     (case v of
        None \<Rightarrow> ''All''
      | Some s \<Rightarrow>
          if s = [] then ''All''
          else
            (let cleaned = str_strip s;
                 cleaned = (if str_in ''gasoline'' (str_lower cleaned)
                            then re_sub pat_gasoline (\<lambda>m. ''Petrol'') cleaned else cleaned)
             in if CHR ''|'' \<in> set cleaned then ''All''
                else if CHR ''/'' \<in> set cleaned then ''All''
                else (case map_of type_mapping (str_lower cleaned) of
                        Some t \<Rightarrow> t
                      | None \<Rightarrow> if cleaned \<notin> set VALID_TYPES then ''All'' else cleaned)))"

definition apply_normalize :: "dtc_row \<Rightarrow> dtc_row" where
  "apply_normalize r = r\<lparr>powertrain_type := Some (normalize_powertrain (powertrain_type r))\<rparr>"

text \<open>
  \<open>has_column\<close> says whether the frame has a \<^verbatim>\<open>powertrain_type\<close> column. The count of
  removed rows and the count of changed cells are both added to \<^verbatim>\<open>stats.codes_updated\<close>.
\<close>

definition cleanup_powertrain_data ::
  "dataframe \<Rightarrow> bool \<Rightarrow> bool \<Rightarrow> usage_stats \<Rightarrow> dataframe \<times> usage_stats" where
  "cleanup_powertrain_data df remove_invalid_codes has_column st =
     (let invalid_codes = (if remove_invalid_codes
                           then filter (\<lambda>r. \<not> valid_prefix (code r)) df else []);
          df1 = (if remove_invalid_codes \<and> length invalid_codes > 0
                 then filter (\<lambda>r. valid_prefix (code r)) df else df);
          st1 = (if remove_invalid_codes \<and> length invalid_codes > 0
                 then st\<lparr>codes_updated := codes_updated st + length invalid_codes\<rparr> else st)
      in if \<not> has_column then (df1, st1)
         else
           (let df2 = map apply_normalize df1;
                total_changed =
                  length (filter (\<lambda>r. powertrain_type r \<noteq> powertrain_type (apply_normalize r)) df1)
            in (df2, st1\<lparr>codes_updated := codes_updated st1 + total_changed\<rparr>)))"

text \<open>The format of a code in the specification, \<^verbatim>\<open>^[PBCU][0-3][0-9A-F]{3}[A-Z]?$\<close>
  without regard to case, for comparison with \<open>valid_prefix\<close>.\<close>

definition spec_code_format :: "string \<Rightarrow> bool" where
  "spec_code_format c =
     (let u = str_upper c
      in (length u = 5 \<or> length u = 6)
         \<and> u ! 0 \<in> set ''PBCU''
         \<and> u ! 1 \<in> set ''0123''
         \<and> list_all (\<lambda>x. x \<in> set ''0123456789ABCDEF'') (take 3 (drop 2 u))
         \<and> (length u = 6 \<longrightarrow> u ! 5 \<in> set ''ABCDEFGHIJKLMNOPQRSTUVWXYZ''))"

section \<open>Example data\<close>

text \<open>A row with the given code, owner and description, and the counters at zero.\<close>

definition example_row :: "string \<Rightarrow> string \<Rightarrow> string \<Rightarrow> dtc_row" where
  "example_row c m d =
     \<lparr>code = c, make_id = m, description = d, detailed_description = d, system = ''Engine'',
      severity = ''Medium'', common_causes = ''[]'', symptoms = ''[]'',
      applicable_models = ''All'', applicable_years = ''1996+'', powertrain_type = Some ''All''\<rparr>"

definition no_stats :: usage_stats where
  "no_stats = \<lparr>codes_added = 0, codes_updated = 0, codes_by_manufacturer = (\<lambda>m. 0)\<rparr>"


subsection \<open>\<^verbatim>\<open>import_scraped_dtc_codes\<close>\<close>

text \<open>A row of the scraped CSV, after the \<^verbatim>\<open>manufacturer\<close> column is renamed to
  \<^verbatim>\<open>make_id\<close>. A file without the three columns is returned from early with the frame
  unchanged and is not represented.\<close>

record scraped_row =
  s_code :: string
  s_make_id :: string
  s_description :: string

definition scraped_key :: "scraped_row \<Rightarrow> string \<times> string" where
  "scraped_key row = (str_upper (s_code row), str_lower (s_make_id row))"

text \<open>The dict \<^verbatim>\<open>existing_keys\<close> from key to index; a later row with the same key
  overwrites the index of an earlier one.\<close>

definition existing_keys :: "dataframe \<Rightarrow> ((string \<times> string) \<times> nat) list" where
  "existing_keys df =
     foldl (\<lambda>d ir. AList.update (identity_key (snd ir)) (fst ir) d) []
       (zip [0..<length df] df)"

text \<open>
  \<^verbatim>\<open>len(scraped_desc) > len(existing_desc) * 1.2\<close>. The product is a float and
  \<^verbatim>\<open>1.2\<close> the double nearest to 6/5; for lengths below \<open>2^50\<close> the comparison agrees with
  the exact one written here.
\<close>

definition longer_by_fifth :: "string \<Rightarrow> string \<Rightarrow> bool" where
  "longer_by_fifth scraped_desc existing_desc =
     (5 * length scraped_desc > 6 * length existing_desc)"

record scrape_state =
  new_codes :: "(string \<times> string) list"
  codes_to_update :: "(nat \<times> string \<times> string) list"
  skipped_codes :: nat

definition scrape_step ::
  "dataframe \<Rightarrow> ((string \<times> string) \<times> nat) list \<Rightarrow> bool \<Rightarrow> scrape_state \<Rightarrow> scraped_row
     \<Rightarrow> scrape_state" where
  "scrape_step df keys update_existing s row =
     (let key = scraped_key row;
          scraped_desc = s_description row
      in case map_of keys key of
           None \<Rightarrow> s\<lparr>new_codes := new_codes s @ [(str_upper (s_code row), scraped_desc)]\<rparr>
         | Some existing_idx \<Rightarrow>
             if update_existing then
               (let existing_desc = description (df ! existing_idx)
                in if longer_by_fifth scraped_desc existing_desc
                   then s\<lparr>codes_to_update :=
                            codes_to_update s @ [(existing_idx, str_upper (s_code row), scraped_desc)]\<rparr>
                   else s\<lparr>skipped_codes := skipped_codes s + 1\<rparr>)
             else s\<lparr>skipped_codes := skipped_codes s + 1\<rparr>)"

definition set_description :: "dataframe \<Rightarrow> nat \<times> string \<times> string \<Rightarrow> dataframe" where
  "set_description df u = df[fst u := (df ! fst u)\<lparr>description := snd (snd u)\<rparr>]"

text \<open>
  \<open>make_rows\<close> builds the new rows: \<open>quick_import_codes\<close> with \<^verbatim>\<open>--merge-only\<close>, the
  enrichment through the external service otherwise. The result is the new frame, the
  new counters and the count of skipped rows that is printed. An empty scraped file
  fails at \<^verbatim>\<open>iloc[0]\<close>. The counter \<^verbatim>\<open>codes_added\<close> is raised twice for the new
  rows, once directly and once by \<^verbatim>\<open>stats.add_codes\<close>.
\<close>

definition import_scraped_dtc_codes ::
  "((string \<times> string) list \<Rightarrow> string \<Rightarrow> dataframe) \<Rightarrow> dataframe \<Rightarrow> scraped_row list \<Rightarrow> bool
     \<Rightarrow> usage_stats \<Rightarrow> exn + (dataframe \<times> usage_stats \<times> nat)" where
  "import_scraped_dtc_codes make_rows df scraped_df update_existing st =
     (case scraped_df of
        [] \<Rightarrow> Inl IndexError
      | first_row # rest \<Rightarrow>
          (let mk = str_lower (s_make_id first_row);
               s = foldl (scrape_step df (existing_keys df) update_existing)
                     \<lparr>new_codes = [], codes_to_update = [], skipped_codes = 0\<rparr> scraped_df
           in if new_codes s = [] \<and> codes_to_update s = [] then Inr (df, st, skipped_codes s)
              else
                (let df1 = foldl set_description df (codes_to_update s);
                     st1 = st\<lparr>codes_updated := codes_updated st + length (codes_to_update s)\<rparr>;
                     new_rows = (if new_codes s \<noteq> [] then make_rows (new_codes s) mk else []);
                     df2 = (if new_rows \<noteq> [] then df1 @ new_rows else df1);
                     st2 = (if new_rows \<noteq> []
                            then add_codes mk (length new_rows)
                                   (st1\<lparr>codes_added := codes_added st1 + length new_rows\<rparr>)
                            else st1)
                 in Inr (sort_values df2, st2, skipped_codes s))))"

subsection \<open>The update loop of \<^verbatim>\<open>enrich_existing_codes\<close>\<close>

text \<open>A dict from column names to cells: a row of \<^verbatim>\<open>csv.DictReader\<close>, or a record
  returned by the enrichment.\<close>

type_synonym csv_row = "(string \<times> string) list"

text \<open>The eight assignments \<^verbatim>\<open>if 'f' in enriched_data: df.at[idx, 'f'] = enriched_data['f']\<close>.\<close>

definition apply_enriched :: "dtc_row \<Rightarrow> csv_row \<Rightarrow> dtc_row" where
  "apply_enriched r e =
     (let r = (case map_of e ''detailed_description'' of
                 Some v \<Rightarrow> r\<lparr>detailed_description := v\<rparr> | None \<Rightarrow> r);
          r = (case map_of e ''system'' of Some v \<Rightarrow> r\<lparr>system := v\<rparr> | None \<Rightarrow> r);
          r = (case map_of e ''severity'' of Some v \<Rightarrow> r\<lparr>severity := v\<rparr> | None \<Rightarrow> r);
          r = (case map_of e ''common_causes'' of Some v \<Rightarrow> r\<lparr>common_causes := v\<rparr> | None \<Rightarrow> r);
          r = (case map_of e ''symptoms'' of Some v \<Rightarrow> r\<lparr>symptoms := v\<rparr> | None \<Rightarrow> r);
          r = (case map_of e ''applicable_models'' of
                 Some v \<Rightarrow> r\<lparr>applicable_models := v\<rparr> | None \<Rightarrow> r);
          r = (case map_of e ''applicable_years'' of
                 Some v \<Rightarrow> r\<lparr>applicable_years := v\<rparr> | None \<Rightarrow> r);
          r = (case map_of e ''powertrain_type'' of
                 Some v \<Rightarrow> r\<lparr>powertrain_type := Some v\<rparr> | None \<Rightarrow> r)
      in r)"

text \<open>\<^verbatim>\<open>{e['code'].upper(): e for e in enriched}\<close>; a record without \<^verbatim>\<open>code\<close> raises
  \<^verbatim>\<open>KeyError\<close>.\<close>

fun enriched_by_code :: "csv_row list \<Rightarrow> (string \<times> csv_row) list \<Rightarrow> exn + (string \<times> csv_row) list" where
  "enriched_by_code [] d = Inr d"
| "enriched_by_code (e # es) d =
     (case map_of e ''code'' of
        None \<Rightarrow> Inl KeyError
      | Some c \<Rightarrow> enriched_by_code es (AList.update (str_upper c) e d))"

text \<open>The loop over the items \<open>(idx, code)\<close> of one manufacturer (lines 1570-1596), with
  the records \<open>enriched\<close> that the enrichment returned.\<close>

definition enrich_item ::
  "(string \<times> csv_row) list \<Rightarrow> dataframe \<times> usage_stats \<Rightarrow> nat \<times> string \<Rightarrow> dataframe \<times> usage_stats" where
  "enrich_item by_code ds item =
     (case map_of by_code (str_upper (snd item)) of
        None \<Rightarrow> ds
      | Some enriched_data \<Rightarrow>
          ((fst ds)[fst item := apply_enriched (fst ds ! fst item) enriched_data],
           (snd ds)\<lparr>codes_updated := codes_updated (snd ds) + 1\<rparr>))"

definition enrich_existing_update ::
  "dataframe \<Rightarrow> (nat \<times> string) list \<Rightarrow> csv_row list \<Rightarrow> usage_stats \<Rightarrow> exn + (dataframe \<times> usage_stats)" where
  "enrich_existing_update df items enriched st =
     (case enriched_by_code enriched [] of
        Inl e \<Rightarrow> Inl e
      | Inr by_code \<Rightarrow> Inr (foldl (enrich_item by_code) (df, st) items))"

section \<open>\<^verbatim>\<open>merge_dtc_codes\<close> (merge_to_json.py)\<close>

definition fieldnames :: "string list" where
  "fieldnames =
     [''code'', ''make_id'', ''description'', ''detailed_description'', ''system'', ''severity'',
      ''common_causes'', ''symptoms'', ''applicable_models'', ''applicable_years'',
      ''powertrain_type'']"

text \<open>\<^verbatim>\<open>row.get(k, d)\<close>, the row \<^verbatim>\<open>{fn: row.get(fn, "") for fn in fieldnames}\<close> and the
  key \<^verbatim>\<open>(row.get("code", ""), row.get("make_id", ""))\<close>.\<close>

definition row_get :: "csv_row \<Rightarrow> string \<Rightarrow> string \<Rightarrow> string" where
  "row_get row k d = (case map_of row k of Some v \<Rightarrow> v | None \<Rightarrow> d)"

definition normalized :: "csv_row \<Rightarrow> csv_row" where
  "normalized row = map (\<lambda>fn. (fn, row_get row fn [])) fieldnames"

definition row_key :: "csv_row \<Rightarrow> string \<times> string" where
  "row_key row = (row_get row ''code'' [], row_get row ''make_id'' [])"

text \<open>The test \<^verbatim>\<open>(existing.get("code"), existing.get("make_id")) == key\<close> and the inner
  loop that replaces the first row that passes it.\<close>

definition row_matches :: "string \<times> string \<Rightarrow> csv_row \<Rightarrow> bool" where
  "row_matches key existing =
     ((map_of existing ''code'', map_of existing ''make_id'') = (Some (fst key), Some (snd key)))"

fun replace_first :: "string \<times> string \<Rightarrow> csv_row \<Rightarrow> csv_row list \<Rightarrow> csv_row list" where
  "replace_first key n [] = []"
| "replace_first key n (existing # rows) =
     (if row_matches key existing then n # rows else existing # replace_first key n rows)"

record merge_state =
  existing_codes :: "(string \<times> string) set"
  existing_rows :: "csv_row list"
  new_codes_count :: nat
  updated_codes :: nat

definition merge_step :: "merge_state \<Rightarrow> csv_row \<Rightarrow> merge_state" where
  "merge_step s row =
     (let key = row_key row
      in if key \<notin> existing_codes s
         then s\<lparr>existing_rows := existing_rows s @ [normalized row],
                existing_codes := insert key (existing_codes s),
                new_codes_count := new_codes_count s + 1\<rparr>
         else if list_ex (row_matches key) (existing_rows s)
         then s\<lparr>existing_rows := replace_first key (normalized row) (existing_rows s),
                updated_codes := updated_codes s + 1\<rparr>
         else s)"

text \<open>
  \<open>file_rows\<close> are the rows read from the existing \<^verbatim>\<open>dtc_codes.csv\<close> (none when the file
  is missing or empty), \<open>dtc_csv\<close> the incoming rows. The result is the rows written back,
  sorted by key, with the counts of new and updated codes that are printed.
\<close>

definition merge_dtc_codes :: "csv_row list \<Rightarrow> csv_row list \<Rightarrow> csv_row list \<times> nat \<times> nat" where
  "merge_dtc_codes file_rows dtc_csv =
     (let s = foldl merge_step
                \<lparr>existing_codes = set (map row_key file_rows),
                 existing_rows = map normalized file_rows,
                 new_codes_count = 0, updated_codes = 0\<rparr> dtc_csv
      in (sort_key row_key (existing_rows s), new_codes_count s, updated_codes s))"

section \<open>\<^verbatim>\<open>classify_codes_with_ai\<close> (fill_dtc_gaps.py)\<close>
















section \<open>Lemmas on the recovery strategies\<close>









lemma rfind_from_cases:
  "(rfind_from c s i best = best \<and> c \<notin> set s) \<or>
   (\<exists>k < length s. rfind_from c s i best = i + int k \<and> s ! k = c \<and> c \<notin> set (drop (Suc k) s))"
proof (induction s arbitrary: i best)
  case Nil
  show ?case by simp
next
  case (Cons x xs)
  from Cons [of "i + 1" "if x = c then i else best"]
  show ?case
  proof
    assume a: "rfind_from c xs (i + 1) (if x = c then i else best) = (if x = c then i else best) \<and> c \<notin> set xs"
    show ?thesis
    proof (cases "x = c")
      case True
      with a have "rfind_from c (x # xs) i best = i + int 0 \<and> (x # xs) ! 0 = c \<and> c \<notin> set (drop (Suc 0) (x # xs))"
        by simp
      then show ?thesis by blast
    next
      case False
      with a show ?thesis by simp
    qed
  next
    assume "\<exists>k<length xs. rfind_from c xs (i + 1) (if x = c then i else best) = i + 1 + int k \<and> xs ! k = c \<and> c \<notin> set (drop (Suc k) xs)"
    then obtain k where k: "k < length xs" "rfind_from c xs (i + 1) (if x = c then i else best) = i + 1 + int k"
      "xs ! k = c" "c \<notin> set (drop (Suc k) xs)" by blast
    then have "Suc k < length (x # xs) \<and> rfind_from c (x # xs) i best = i + int (Suc k) \<and> (x # xs) ! Suc k = c \<and> c \<notin> set (drop (Suc (Suc k)) (x # xs))"
      by simp
    then show ?thesis by blast
  qed
qed


lemma rfind_none: "rfind c s < 0 \<longleftrightarrow> c \<notin> set s"
  using rfind_from_cases [of c s 0 "- 1"]
  by (auto simp: rfind_def)


section \<open>Lemmas on the table operations\<close>

lemma type_mapping_valid: "map_of type_mapping k = Some t \<Longrightarrow> t \<in> set VALID_TYPES"
  by (drule map_of_SomeD) (auto simp: type_mapping_def VALID_TYPES_def)

lemma normalize_powertrain_valid: "normalize_powertrain v \<in> set VALID_TYPES"
proof (cases v)
  case None
  then show ?thesis by (simp add: normalize_powertrain_def VALID_TYPES_def)
next
  case (Some s)
  have all: "''All'' \<in> set VALID_TYPES" by (simp add: VALID_TYPES_def)
  show ?thesis
    unfolding normalize_powertrain_def Some
    by (auto simp: Let_def all type_mapping_valid split: option.splits)
qed

lemma normalize_powertrain_fixed:
  "t \<in> set VALID_TYPES \<Longrightarrow> normalize_powertrain (Some t) = t"
proof -
  have "normalize_powertrain (Some ''Petrol'') = ''Petrol''" by code_simp
  moreover have "normalize_powertrain (Some ''Diesel'') = ''Diesel''" by code_simp
  moreover have "normalize_powertrain (Some ''Petrol Hybrid'') = ''Petrol Hybrid''" by code_simp
  moreover have "normalize_powertrain (Some ''Diesel Hybrid'') = ''Diesel Hybrid''" by code_simp
  moreover have "normalize_powertrain (Some ''Plug-in Hybrid'') = ''Plug-in Hybrid''" by code_simp
  moreover have "normalize_powertrain (Some ''Electric'') = ''Electric''" by code_simp
  moreover have "normalize_powertrain (Some ''All'') = ''All''" by code_simp
  moreover assume "t \<in> set VALID_TYPES"
  ultimately show ?thesis unfolding VALID_TYPES_def by auto
qed

lemma normalize_powertrain_idem:
  "normalize_powertrain (Some (normalize_powertrain v)) = normalize_powertrain v"
  by (rule normalize_powertrain_fixed [OF normalize_powertrain_valid])

lemma apply_normalize_idem: "apply_normalize (apply_normalize r) = apply_normalize r"
  by (simp add: apply_normalize_def normalize_powertrain_idem)

lemma apply_normalize_code: "code (apply_normalize r) = code r"
  by (simp add: apply_normalize_def)

lemma filter_valid_normalize:
  "filter (\<lambda>r. valid_prefix (code r)) (map apply_normalize df) =
   map apply_normalize (filter (\<lambda>r. valid_prefix (code r)) df)"
  by (induction df) (auto simp: apply_normalize_code)

lemma cleanup_frame:
  "fst (cleanup_powertrain_data df rm hc st) =
     (let df1 = (if rm then filter (\<lambda>r. valid_prefix (code r)) df else df)
      in if hc then map apply_normalize df1 else df1)"
proof -
  have "filter (\<lambda>r. \<not> valid_prefix (code r)) df = [] \<Longrightarrow> filter (\<lambda>r. valid_prefix (code r)) df = df"
    by (induction df) (auto split: if_splits)
  then show ?thesis
    by (auto simp: cleanup_powertrain_data_def Let_def)
qed

lemma cleanup_idem:
  "fst (cleanup_powertrain_data (fst (cleanup_powertrain_data df rm hc st)) rm hc st') =
   fst (cleanup_powertrain_data df rm hc st)"
  by (simp add: cleanup_frame Let_def filter_valid_normalize apply_normalize_idem comp_def)
lemma length_filter_split:
  "length (filter P xs) + length (filter (\<lambda>x. \<not> P x) xs) = length xs"
  by (induction xs) auto

lemma cleanup_stats:
  "codes_updated (snd (cleanup_powertrain_data df True hc st)) =
     codes_updated st + length (filter (\<lambda>r. \<not> valid_prefix (code r)) df)
       + (if hc then length (filter (\<lambda>r. powertrain_type r \<noteq> powertrain_type (apply_normalize r))
                               (filter (\<lambda>r. valid_prefix (code r)) df))
          else 0)"
proof (cases "filter (\<lambda>r. \<not> valid_prefix (code r)) df = []")
  case True
  then have "filter (\<lambda>r. valid_prefix (code r)) df = df"
    by (induction df) (auto split: if_splits)
  then have "filter (\<lambda>r. powertrain_type r \<noteq> powertrain_type (apply_normalize r))
               (filter (\<lambda>r. valid_prefix (code r)) df) =
             filter (\<lambda>r. powertrain_type r \<noteq> powertrain_type (apply_normalize r)) df"
    by simp
  with True show ?thesis
    by (simp add: cleanup_powertrain_data_def Let_def del: filter_filter)
next
  case False
  then show ?thesis
    by (simp add: cleanup_powertrain_data_def Let_def del: filter_filter)
qed



lemma drop_duplicates_last_filter: "set (drop_duplicates_last xs) \<subseteq> set xs"
  by (induction xs) auto

lemma drop_duplicates_last_keys:
  "set (map exact_key (drop_duplicates_last xs)) = set (map exact_key xs)"
  by (induction xs) auto

lemma drop_duplicates_last_distinct: "distinct (map exact_key (drop_duplicates_last xs))"
proof (induction xs)
  case Nil
  show ?case by simp
next
  case (Cons r rs)
  have "exact_key r \<notin> set (map exact_key rs) \<Longrightarrow>
        exact_key r \<notin> set (map exact_key (drop_duplicates_last rs))"
    using drop_duplicates_last_keys [of rs] by simp
  with Cons show ?case by simp
qed

lemma drop_duplicates_last_id:
  "distinct (map exact_key xs) \<Longrightarrow> drop_duplicates_last xs = xs"
  by (induction xs) auto

lemma save_set: "set (save_dtc_codes df) \<subseteq> set df"
  using drop_duplicates_last_filter [of "sort_values df"]
  by (simp add: save_dtc_codes_def sort_values_def)

lemma save_keys: "set (map exact_key (save_dtc_codes df)) = set (map exact_key df)"
  by (simp add: save_dtc_codes_def drop_duplicates_last_keys sort_values_def del: set_map)
     (simp add: exact_key_def)

lemma save_distinct: "distinct (map exact_key (save_dtc_codes df))"
  by (simp add: save_dtc_codes_def drop_duplicates_last_distinct)


section \<open>Lemmas on the classification\<close>
















section \<open>The claims\<close>







text \<open>
  C8. Normalising twice is normalising once: \<open>normalize_powertrain\<close> always returns one of
  the seven powertrain types, each of which it maps to itself, and the cleanup pass
  applied to its own result changes no row.
\<close>

theorem normalizer_idempotent:
  "normalize_powertrain (Some (normalize_powertrain v)) = normalize_powertrain v \<and>
   normalize_powertrain v \<in> set VALID_TYPES \<and>
   apply_normalize (apply_normalize r) = apply_normalize r \<and>
   fst (cleanup_powertrain_data (fst (cleanup_powertrain_data df rm hc st)) rm hc st') =
     fst (cleanup_powertrain_data df rm hc st)"
  by (simp add: normalize_powertrain_idem normalize_powertrain_valid apply_normalize_idem
      cleanup_idem)

theorem normalizer_idempotent_witness:
  "normalize_powertrain (Some '' Gasoline '') = ''Petrol'' \<and>
   normalize_powertrain (Some (normalize_powertrain (Some '' Gasoline ''))) = ''Petrol'' \<and>
   normalize_powertrain (Some ''Petrol/Diesel'') = ''All'' \<and>
   normalize_powertrain None = ''All'' \<and> normalize_powertrain (Some []) = ''All''"
proof -
  have a: "normalize_powertrain (Some '' Gasoline '') = ''Petrol''" by code_simp
  have b: "normalize_powertrain (Some ''Petrol/Diesel'') = ''All''" by code_simp
  have c: "normalize_powertrain None = ''All''" "normalize_powertrain (Some []) = ''All''"
    by (simp_all add: normalize_powertrain_def)
  from normalizer_idempotent [of "Some '' Gasoline ''"] a b c show ?thesis by simp
qed

text \<open>
  C5 (amended). After the cleanup pass with \<open>remove_invalid_codes\<close> every remaining code
  starts with one of P, B, C, U (in upper case) followed by a decimal digit, the remaining
  codes are exactly the codes of the frame that pass this test, and the removed rows are
  counted: \<open>codes_updated\<close> grows by at least their number, and by exactly their number
  when the frame has no powertrain column (otherwise the changed powertrain cells are
  added to the same counter).
\<close>

theorem cleanup_keeps_valid_prefix:
  assumes "cleanup_powertrain_data df True hc st = (df', st')"
  shows "(\<forall>r \<in> set df'. valid_prefix (code r)) \<and>
         map code df' = filter valid_prefix (map code df) \<and>
         length df' + length (filter (\<lambda>r. \<not> valid_prefix (code r)) df) = length df \<and>
         codes_updated st' \<ge> codes_updated st + (length df - length df') \<and>
         (\<not> hc \<longrightarrow> codes_updated st' = codes_updated st + (length df - length df'))"
proof -
  from assms have df': "df' = (let df1 = filter (\<lambda>r. valid_prefix (code r)) df
                              in if hc then map apply_normalize df1 else df1)"
    using cleanup_frame [of df True hc st] by simp
  have len: "length df' = length (filter (\<lambda>r. valid_prefix (code r)) df)"
    by (simp add: df' Let_def)
  have st': "codes_updated st' = codes_updated st + length (filter (\<lambda>r. \<not> valid_prefix (code r)) df)
       + (if hc then length (filter (\<lambda>r. powertrain_type r \<noteq> powertrain_type (apply_normalize r))
                               (filter (\<lambda>r. valid_prefix (code r)) df))
          else 0)"
    using cleanup_stats [of df hc st] assms by simp
  have split: "length df' + length (filter (\<lambda>r. \<not> valid_prefix (code r)) df) = length df"
    using length_filter_split [of "\<lambda>r. valid_prefix (code r)" df] len by simp
  have codes: "map code df' = filter valid_prefix (map code df)"
    by (simp add: df' Let_def filter_map comp_def apply_normalize_code)
  have "\<forall>r \<in> set df'. valid_prefix (code r)"
    by (auto simp: df' Let_def apply_normalize_code)
  with codes split st' show ?thesis by auto
qed

theorem cleanup_keeps_valid_prefix_witness:
  "map code (fst (cleanup_powertrain_data
      [example_row ''P0420'' ''toyota'' ''a'', example_row ''X1234'' ''toyota'' ''b'',
       example_row ''p0300'' ''honda'' ''c''] True True no_stats)) = [''P0420''] \<and>
   codes_updated (snd (cleanup_powertrain_data
      [example_row ''P0420'' ''toyota'' ''a'', example_row ''X1234'' ''toyota'' ''b'',
       example_row ''p0300'' ''honda'' ''c''] True True no_stats)) \<ge> 2"
proof -
  let ?df = "[example_row ''P0420'' ''toyota'' ''a'', example_row ''X1234'' ''toyota'' ''b'',
       example_row ''p0300'' ''honda'' ''c'']"
  obtain df' st' where r: "cleanup_powertrain_data ?df True True no_stats = (df', st')"
    by (cases "cleanup_powertrain_data ?df True True no_stats")
  have c: "filter valid_prefix (map code ?df) = [''P0420'']"
    by (simp add: example_row_def valid_prefix_def is_digit_def)
  have z: "codes_updated no_stats = 0" by (simp add: no_stats_def)
  from cleanup_keeps_valid_prefix [OF r] c z r show ?thesis by auto
qed

text \<open>C5 as stated fails: the code P9XYZ passes the test of the cleanup and stays, and it
  does not match the format of the specification.\<close>

theorem cleanup_keeps_malformed_code_counterexample:
  "map code (fst (cleanup_powertrain_data [example_row ''P9XYZ'' ''toyota'' ''a''] True True no_stats))
     = [''P9XYZ''] \<and> \<not> spec_code_format ''P9XYZ''"
  by code_simp






end
